theory Spec2Isabelle
  imports Complex_Main "HOL-Library.DAList"
begin

section \<open>Data model\<close>

text \<open>
  The signal-source side of the tracker: the \<^verbatim>\<open>IDataProvider\<close> interface
  (\<^verbatim>\<open>src/services/data-provider.ts\<close>), its example implementation
  \<^verbatim>\<open>CustomDataProviderExample\<close>, the \<^verbatim>\<open>ApiClient\<close> adapter and the test subclass
  \<^verbatim>\<open>TestCustomDataProvider\<close>.

  The declarations of \<^verbatim>\<open>../types/api\<close> are not part of the sources at hand. The
  fields of \<^verbatim>\<open>AgentAccount\<close> are the four that the documentation and the test
  fixtures list; the \<^verbatim>\<open>Position\<close> type is a type parameter \<open>'p\<close> of the model, no
  method ever looks inside a position. A marker is a JavaScript number that is only
  passed on; an absent optional argument (\<^verbatim>\<open>undefined\<close>) is \<open>None\<close>.
\<close>

type_synonym marker = int

record 'p AgentAccount =
  account_id :: string
  model_id :: string
  since_inception_hourly_marker :: int
  positions :: "string \<rightharpoonup> 'p"

record 'p DataProviderResponse =
  accountTotals :: "'p AgentAccount list"

text \<open>
  An \<^verbatim>\<open>async\<close> method is a function of the receiver's state that returns the value
  the promise resolves to (\<open>Inr\<close>) or the error it rejects with (\<open>Inl\<close>), together
  with the state it leaves. One caller runs one call to completion at a time.
\<close>

type_synonym ('e, 'a, 's) async = "'s \<Rightarrow> ('e + 'a) \<times> 's"

subsection \<open>The cache: a JavaScript \<^verbatim>\<open>Map<string, any>\<close>\<close>

text \<open>
  A \<^verbatim>\<open>Map\<close> keeps its entries in insertion order and holds each key once: an
  association list with distinct keys. Its values are typed \<^verbatim>\<open>any\<close>. The only writer
  in the sources is the test helper \<^verbatim>\<open>addCacheEntry\<close>, which stores objects
  \<^verbatim>\<open>{ data, timestamp }\<close>. A value is either \<^verbatim>\<open>undefined\<close> or \<^verbatim>\<open>null\<close>
  (\<open>Nullish\<close>: reading a property of it throws a \<^verbatim>\<open>TypeError\<close>), or a value whose
  \<^verbatim>\<open>timestamp\<close> property can be read (\<open>Entry\<close>). That property is missing
  (\<open>None\<close>) or a number with an integer value.
\<close>

datatype js_error = TypeError

record 'd cache_entry =
  data :: 'd
  timestamp :: "int option"

datatype 'd cache_value = Nullish | Entry "'d cache_entry"

type_synonym 'd cache_map = "(string, 'd cache_value) alist"

definition Map_entries :: "('k, 'v) alist \<Rightarrow> ('k \<times> 'v) list" where
  "Map_entries m = DAList.impl_of m"

definition Map_size :: "('k, 'v) alist \<Rightarrow> nat" where
  "Map_size m = length (DAList.impl_of m)"

definition Map_clear :: "('k, 'v) alist \<Rightarrow> ('k, 'v) alist" where
  "Map_clear m = DAList.empty"


text \<open>
  \<^verbatim>\<open>x || d\<close> on an optional number: \<^verbatim>\<open>undefined\<close> and \<^verbatim>\<open>0\<close> are falsy and give
  \<open>d\<close>, any other number is itself.
\<close>

definition or_default :: "int option \<Rightarrow> int \<Rightarrow> int" where
  "or_default x d = (case x of None \<Rightarrow> d | Some n \<Rightarrow> if n = 0 then d else n)"

subsection \<open>Numbers\<close>

text \<open>
  A JavaScript number is an IEEE 754 double. The numbers of the cache statistics are
  integers: the clock \<^verbatim>\<open>Date.now()\<close> (milliseconds, of magnitude at most
  \<open>8.64 \<times> 10\<^sup>1\<^sup>5\<close>) and the stored timestamps. A double holds every integer up to
  \<open>2\<^sup>5\<^sup>3 = 9007199254740992\<close> in magnitude; a larger one only when it is a multiple of
  the unit in the last place of its 53-bit significand. \<^verbatim>\<open>a - b\<close> is the exact
  difference rounded to the nearest double, a tie going to the even significand.
\<close>

function ulp :: "nat \<Rightarrow> nat" where
  "ulp m = (if m < 9007199254740992 then 1 else 2 * ulp (m div 2))"
  by pat_completeness auto
termination
  by (relation "measure (\<lambda>m. m)") auto

declare ulp.simps [simp del]

definition round_half_even :: "nat \<Rightarrow> nat \<Rightarrow> nat" where
  "round_half_even u m =
     (let q = m div u; r = m mod u
      in if 2 * r < u then q * u
         else if u < 2 * r then (q + 1) * u
         else if even q then q * u else (q + 1) * u)"

definition to_double :: "int \<Rightarrow> int" where
  "to_double n = sgn n * int (round_half_even (ulp (nat \<bar>n\<bar>)) (nat \<bar>n\<bar>))"

definition number_sub :: "int \<Rightarrow> int \<Rightarrow> int" where
  "number_sub a b = to_double (a - b)"

record cache_stats_entry =
  url :: string
  age :: int

record cache_stats =
  size_field :: nat
  entries :: "cache_stats_entry list"

section \<open>\<^verbatim>\<open>CustomDataProviderExample\<close>\<close>

record 'd CustomDataProviderExample =
  cache :: "'d cache_map"
  apiEndpoint :: string
  apiKey :: "string option"

definition CustomDataProviderExample_new ::
    "string \<Rightarrow> string option \<Rightarrow> 'd CustomDataProviderExample" where
  "CustomDataProviderExample_new endpoint key =
     \<lparr>cache = DAList.empty, apiEndpoint = endpoint, apiKey = key\<rparr>"

text \<open>
  \<^verbatim>\<open>getAccountTotals\<close>: the array literal of the source has no element (its example
  element is commented out), the marker is not read and no field is written.
\<close>

definition CustomDataProviderExample_getAccountTotals ::
    "marker option \<Rightarrow> ('e, 'p DataProviderResponse, 's) async" where
  "CustomDataProviderExample_getAccountTotals marker this =
     (let accountTotals = [] in (Inr \<lparr>accountTotals = accountTotals\<rparr>, this))"

text \<open>
  The other two readers call \<^verbatim>\<open>this.getAccountTotals\<close>, which a subclass may
  override (the test subclass does): the method that \<^verbatim>\<open>this\<close> dispatches to is the
  first argument. A rejection of that call is the rejection of the caller.
\<close>

text \<open>A \<^verbatim>\<open>Set<string>\<close> in insertion order; \<^verbatim>\<open>add\<close> of a member changes nothing.\<close>

definition Set_add :: "'a \<Rightarrow> 'a list \<Rightarrow> 'a list" where
  "Set_add x xs = (if x \<in> set xs then xs else xs @ [x])"

fun collect_agentIds :: "'p AgentAccount list \<Rightarrow> string list \<Rightarrow> string list" where
  "collect_agentIds [] agentIds = agentIds"
| "collect_agentIds (account # rest) agentIds =
     collect_agentIds rest (Set_add (model_id account) agentIds)"

definition CustomDataProviderExample_getAvailableAgents ::
    "(marker option \<Rightarrow> ('e, 'p DataProviderResponse, 's) async) \<Rightarrow> ('e, string list, 's) async"
  where
  "CustomDataProviderExample_getAvailableAgents this_getAccountTotals this =
     (case this_getAccountTotals None this of
        (Inl err, this') \<Rightarrow> (Inl err, this')
      | (Inr response, this') \<Rightarrow>
          (let agentIds = collect_agentIds (accountTotals response) []
           in (Inr agentIds, this')))"

text \<open>
  \<^verbatim>\<open>Array.prototype.find\<close> gives the first element that satisfies the predicate or
  \<^verbatim>\<open>undefined\<close>; an account is an object, hence truthy, so \<^verbatim>\<open>agent || null\<close> is the
  account found or \<^verbatim>\<open>null\<close> (\<open>None\<close>).
\<close>

definition CustomDataProviderExample_getAgentData ::
    "(marker option \<Rightarrow> ('e, 'p DataProviderResponse, 's) async) \<Rightarrow>
     string \<Rightarrow> marker option \<Rightarrow> ('e, 'p AgentAccount option, 's) async" where
  "CustomDataProviderExample_getAgentData this_getAccountTotals agentId marker this =
     (case this_getAccountTotals marker this of
        (Inl err, this') \<Rightarrow> (Inl err, this')
      | (Inr response, this') \<Rightarrow>
          (let agent = find (\<lambda>account. model_id account = agentId) (accountTotals response)
           in (Inr agent, this')))"

definition CustomDataProviderExample_clearCache ::
    "('d, 'z) CustomDataProviderExample_scheme \<Rightarrow> unit \<times> ('d, 'z) CustomDataProviderExample_scheme"
  where
  "CustomDataProviderExample_clearCache this = ((), this\<lparr>cache := Map_clear (cache this)\<rparr>)"

text \<open>
  \<^verbatim>\<open>getCacheStats\<close>; \<open>now\<close> is what \<^verbatim>\<open>Date.now()\<close> returns at the call.
  \<open>stats_entry\<close> is the callback of \<^verbatim>\<open>map\<close>: it throws on a value that is
  \<^verbatim>\<open>undefined\<close> or \<^verbatim>\<open>null\<close>. \<open>Array_map\<close> applies a callback from the first
  element on and ends with the first error thrown.
\<close>

definition stats_entry :: "int \<Rightarrow> string \<times> 'd cache_value \<Rightarrow> js_error + cache_stats_entry" where
  "stats_entry now kv =
     (case kv of
        (u, Nullish) \<Rightarrow> Inl TypeError
      | (u, Entry entry) \<Rightarrow>
          Inr \<lparr>url = u, age = number_sub now (or_default (timestamp entry) 0)\<rparr>)"

fun Array_map :: "('a \<Rightarrow> 'e + 'b) \<Rightarrow> 'a list \<Rightarrow> 'e + 'b list" where
  "Array_map f [] = Inr []"
| "Array_map f (x # xs) =
     (case f x of
        Inl err \<Rightarrow> Inl err
      | Inr y \<Rightarrow> (case Array_map f xs of Inl err \<Rightarrow> Inl err | Inr ys \<Rightarrow> Inr (y # ys)))"

definition CustomDataProviderExample_getCacheStats ::
    "int \<Rightarrow> ('d, 'z) CustomDataProviderExample_scheme \<Rightarrow>
     (js_error + cache_stats) \<times> ('d, 'z) CustomDataProviderExample_scheme" where
  "CustomDataProviderExample_getCacheStats now this =
     (case Array_map (stats_entry now) (Map_entries (cache this)) of
        Inl err \<Rightarrow> (Inl err, this)
      | Inr mapped \<Rightarrow>
          (let entries = mapped
           in (Inr \<lparr>size_field = Map_size (cache this), entries = entries\<rparr>, this)))"

section \<open>\<^verbatim>\<open>TestCustomDataProvider\<close>, the subclass of the test suite\<close>

record ('d, 'p) TestCustomDataProvider = "'d CustomDataProviderExample" +
  mockAccountTotals :: "'p AgentAccount list"

definition TestCustomDataProvider_new ::
    "string \<Rightarrow> string option \<Rightarrow> ('d, 'p) TestCustomDataProvider" where
  "TestCustomDataProvider_new endpoint key =
     \<lparr>cache = DAList.empty, apiEndpoint = endpoint, apiKey = key, mockAccountTotals = []\<rparr>"

definition setMockAccountTotals ::
    "'p AgentAccount list \<Rightarrow> ('d, 'p) TestCustomDataProvider \<Rightarrow> ('d, 'p) TestCustomDataProvider"
  where
  "setMockAccountTotals data_in this = this\<lparr>mockAccountTotals := data_in\<rparr>"

definition TestCustomDataProvider_getAccountTotals ::
    "marker option \<Rightarrow> ('e, 'p DataProviderResponse, ('d, 'p) TestCustomDataProvider) async" where
  "TestCustomDataProvider_getAccountTotals marker this =
     (Inr \<lparr>accountTotals = mockAccountTotals this\<rparr>, this)"


section \<open>\<^verbatim>\<open>IDataProvider\<close> and the \<^verbatim>\<open>ApiClient\<close> adapter\<close>

text \<open>
  An object that implements \<^verbatim>\<open>IDataProvider\<close> is the record of its five methods
  over its own state \<open>'s\<close> (for an arbitrary implementation that is everything it can
  read or write). Any of them may throw.
\<close>

record ('e, 'p, 's) IDataProvider =
  getAccountTotals :: "marker option \<Rightarrow> ('e, 'p DataProviderResponse, 's) async"
  getAvailableAgents :: "('e, string list, 's) async"
  getAgentData :: "string \<Rightarrow> marker option \<Rightarrow> ('e, 'p AgentAccount option, 's) async"
  clearCache :: "('e, unit, 's) async"
  getCacheStats :: "('e, cache_stats, 's) async"

text \<open>
  \<^verbatim>\<open>API_CONFIG\<close> (\<^verbatim>\<open>../config/constants\<close>) and the constructor of
  \<^verbatim>\<open>Nof1DataProvider\<close> are not among the sources: both are parameters of the
  constructor's model. An omitted constructor argument is \<open>None\<close>; a provider object
  is truthy, so \<^verbatim>\<open>dataProvider || new Nof1DataProvider(...)\<close> is the injected
  provider whenever one is given.
\<close>

record API_CONFIG =
  BASE_URL :: string
  TIMEOUT :: int

record ('e, 'p, 's) ApiClient =
  dataProvider :: "('e, 'p, 's) IDataProvider"

definition ApiClient_new ::
    "API_CONFIG \<Rightarrow> (string \<Rightarrow> int \<Rightarrow> ('e, 'p, 's) IDataProvider) \<Rightarrow>
     string option \<Rightarrow> int option \<Rightarrow> ('e, 'p, 's) IDataProvider option \<Rightarrow> ('e, 'p, 's) ApiClient"
  where
  "ApiClient_new config Nof1DataProvider_new baseUrl timeout dataProvider_arg =
     (let baseUrl' = (case baseUrl of None \<Rightarrow> BASE_URL config | Some b \<Rightarrow> b);
          timeout' = (case timeout of None \<Rightarrow> TIMEOUT config | Some t \<Rightarrow> t)
      in \<lparr>dataProvider =
            (case dataProvider_arg of
               Some p \<Rightarrow> p
             | None \<Rightarrow> Nof1DataProvider_new baseUrl' timeout')\<rparr>)"

definition ApiClient_getAccountTotals ::
    "('e, 'p, 's) ApiClient \<Rightarrow> marker option \<Rightarrow> ('e, 'p DataProviderResponse, 's) async" where
  "ApiClient_getAccountTotals this marker = getAccountTotals (dataProvider this) marker"

definition ApiClient_getAvailableAgents ::
    "('e, 'p, 's) ApiClient \<Rightarrow> ('e, string list, 's) async" where
  "ApiClient_getAvailableAgents this = getAvailableAgents (dataProvider this)"

definition ApiClient_getAgentData ::
    "('e, 'p, 's) ApiClient \<Rightarrow> string \<Rightarrow> marker option \<Rightarrow> ('e, 'p AgentAccount option, 's) async"
  where
  "ApiClient_getAgentData this agentId marker = getAgentData (dataProvider this) agentId marker"

definition ApiClient_clearCache :: "('e, 'p, 's) ApiClient \<Rightarrow> ('e, unit, 's) async" where
  "ApiClient_clearCache this = clearCache (dataProvider this)"

definition ApiClient_getCacheStats :: "('e, 'p, 's) ApiClient \<Rightarrow> ('e, cache_stats, 's) async" where
  "ApiClient_getCacheStats this = getCacheStats (dataProvider this)"

section \<open>Object identity: the provider over an explicit store\<close>

text \<open>
  Whether a snapshot is a new object, and whether an old one is written to, is a
  question about references. The store holds the two kinds of objects the snapshots are
  made of, each kind in its own component: arrays of account references, and account
  objects (with their positions inside). Addresses below \<open>next_free\<close> are allocated;
  \<open>alloc_array\<close> is the array literal of \<^verbatim>\<open>getAccountTotals\<close>.
\<close>

type_synonym addr = nat

record 'p store =
  arrays :: "addr \<Rightarrow> addr list"
  accounts :: "addr \<Rightarrow> 'p AgentAccount"
  next_free :: addr

definition allocated :: "'p store \<Rightarrow> addr \<Rightarrow> bool" where
  "allocated h a = (a < next_free h)"

definition alloc_array :: "addr list \<Rightarrow> 'p store \<Rightarrow> addr \<times> 'p store" where
  "alloc_array elems h =
     (next_free h, h\<lparr>arrays := (arrays h)(next_free h := elems), next_free := Suc (next_free h)\<rparr>)"

record DataProviderResponse_ref =
  accountTotals_ref :: addr

text \<open>The value that a response in the store denotes.\<close>

definition response_of :: "'p store \<Rightarrow> DataProviderResponse_ref \<Rightarrow> 'p DataProviderResponse" where
  "response_of h r = \<lparr>accountTotals = map (accounts h) (arrays h (accountTotals_ref r))\<rparr>"

definition CustomDataProviderExample_getAccountTotals_ref ::
    "marker option \<Rightarrow> ('e, DataProviderResponse_ref, 's \<times> 'p store) async" where
  "CustomDataProviderExample_getAccountTotals_ref marker w =
     (case w of (this, h) \<Rightarrow>
        (let (accountTotals, h') = alloc_array [] h
         in (Inr \<lparr>accountTotals_ref = accountTotals\<rparr>, (this, h'))))"

definition CustomDataProviderExample_getAvailableAgents_ref ::
    "(marker option \<Rightarrow> ('e, DataProviderResponse_ref, 's \<times> 'p store) async) \<Rightarrow>
     ('e, string list, 's \<times> 'p store) async" where
  "CustomDataProviderExample_getAvailableAgents_ref this_getAccountTotals w =
     (case this_getAccountTotals None w of
        (Inl err, w') \<Rightarrow> (Inl err, w')
      | (Inr response, (this', h')) \<Rightarrow>
          (let agentIds =
                 collect_agentIds (map (accounts h') (arrays h' (accountTotals_ref response))) []
           in (Inr agentIds, (this', h'))))"

text \<open>The result is the reference of the account found.\<close>

definition CustomDataProviderExample_getAgentData_ref ::
    "(marker option \<Rightarrow> ('e, DataProviderResponse_ref, 's \<times> 'p store) async) \<Rightarrow>
     string \<Rightarrow> marker option \<Rightarrow> ('e, addr option, 's \<times> 'p store) async" where
  "CustomDataProviderExample_getAgentData_ref this_getAccountTotals agentId marker w =
     (case this_getAccountTotals marker w of
        (Inl err, w') \<Rightarrow> (Inl err, w')
      | (Inr response, (this', h')) \<Rightarrow>
          (let agent = find (\<lambda>account. model_id (accounts h' account) = agentId)
                            (arrays h' (accountTotals_ref response))
           in (Inr agent, (this', h'))))"

text \<open>
  \<^verbatim>\<open>clearCache\<close> and \<^verbatim>\<open>getCacheStats\<close> work on the cache \<^verbatim>\<open>Map\<close> alone; over the
  store they are the methods above with the store passed through.
\<close>

definition CustomDataProviderExample_clearCache_ref ::
    "('d, 'z) CustomDataProviderExample_scheme \<times> 'p store \<Rightarrow>
     unit \<times> ('d, 'z) CustomDataProviderExample_scheme \<times> 'p store" where
  "CustomDataProviderExample_clearCache_ref w =
     (case w of (this, h) \<Rightarrow>
        (case CustomDataProviderExample_clearCache this of (r, this') \<Rightarrow> (r, (this', h))))"

definition CustomDataProviderExample_getCacheStats_ref ::
    "int \<Rightarrow> ('d, 'z) CustomDataProviderExample_scheme \<times> 'p store \<Rightarrow>
     (js_error + cache_stats) \<times> ('d, 'z) CustomDataProviderExample_scheme \<times> 'p store" where
  "CustomDataProviderExample_getCacheStats_ref now w =
     (case w of (this, h) \<Rightarrow>
        (case CustomDataProviderExample_getCacheStats now this of (r, this') \<Rightarrow> (r, (this', h))))"

text \<open>
  \<open>unchanged_objects h h'\<close>: every object allocated in \<open>h\<close> is allocated in \<open>h'\<close> with
  the same content.
\<close>

definition unchanged_objects :: "'p store \<Rightarrow> 'p store \<Rightarrow> bool" where
  "unchanged_objects h h' \<longleftrightarrow>
     next_free h \<le> next_free h' \<and>
     (\<forall>a. allocated h a \<longrightarrow> arrays h' a = arrays h a \<and> accounts h' a = accounts h a)"

section \<open>Fixtures of the test suite\<close>

text \<open>
  The \<^verbatim>\<open>Position\<close> objects of the fixtures have these fields; the numbers that are
  prices, quantities and ratios are reals.
\<close>

record exit_plan =
  profit_target :: real
  stop_loss :: real
  invalidation_condition :: string

record Position =
  symbol :: string
  entry_price :: real
  quantity :: real
  leverage :: real
  current_price :: real
  unrealized_pnl :: real
  confidence :: real
  entry_oid :: int
  tp_oid :: int
  sl_oid :: int
  margin :: real
  exit_plan :: exit_plan

definition btc_position :: Position where
  "btc_position =
     \<lparr>symbol = ''BTC'', entry_price = 50000, quantity = 1 / 10, leverage = 1,
      current_price = 51000, unrealized_pnl = 100, confidence = 8 / 10, entry_oid = 12345,
      tp_oid = 0, sl_oid = 0, margin = 5000,
      exit_plan = \<lparr>profit_target = 52000, stop_loss = 48000,
                   invalidation_condition = ''Price below 48000''\<rparr>\<rparr>"

text \<open>
  The accounts of the test \<^verbatim>\<open>should return agent data when agent exists\<close>; \<open>t\<close>
  is the \<^verbatim>\<open>Date.now()\<close> of the fixture.
\<close>

definition target_account :: "int \<Rightarrow> Position AgentAccount" where
  "target_account t =
     \<lparr>account_id = ''agent-1'', model_id = ''target-agent-id'',
      since_inception_hourly_marker = t, positions = [''BTC'' \<mapsto> btc_position]\<rparr>"

definition other_account :: "int \<Rightarrow> Position AgentAccount" where
  "other_account t =
     \<lparr>account_id = ''agent-2'', model_id = ''other-agent-id'',
      since_inception_hourly_marker = t, positions = Map.empty\<rparr>"

text \<open>The accounts of the test \<^verbatim>\<open>should return unique agent IDs when agents exist\<close>.\<close>

definition mock_account :: "string \<Rightarrow> string \<Rightarrow> int \<Rightarrow> Position AgentAccount" where
  "mock_account i m t =
     \<lparr>account_id = i, model_id = m, since_inception_hourly_marker = t, positions = Map.empty\<rparr>"

definition mockAccounts :: "int \<Rightarrow> Position AgentAccount list" where
  "mockAccounts t =
     [mock_account ''agent-1'' ''agent-model-1'' t,
      mock_account ''agent-2'' ''agent-model-1'' t,
      mock_account ''agent-3'' ''agent-model-2'' t]"

text \<open>A test provider as the suite builds it: constructed, then given its accounts.\<close>

definition test_provider ::
    "Position AgentAccount list \<Rightarrow> (unit, Position) TestCustomDataProvider" where
  "test_provider accts =
     setMockAccountTotals accts (TestCustomDataProvider_new ''https://test-api.com'' None)"


text \<open>
  A store as a provider with data would leave it: the account of the first fixture at
  address 0, an array that holds it at address 1, two addresses allocated.
\<close>

definition example_store :: "Position store" where
  "example_store =
     \<lparr>arrays = (\<lambda>a. [])(1 := [0]), accounts = (\<lambda>a. target_account 1700000000000),
      next_free = 2\<rparr>"

section \<open>Selecting an agent's account\<close>

lemma find_None_model_id:
  "find (\<lambda>account. model_id account = agentId) xs = None \<longleftrightarrow>
     (\<forall>account \<in> set xs. model_id account \<noteq> agentId)"
  by (auto simp: find_None_iff)

lemma find_Some_member:
  "find P xs = Some x \<Longrightarrow> x \<in> set xs \<and> P x"
  by (induction xs) (auto split: if_splits)

text \<open>
  C1. For every agent identifier and every marker (given or not), \<^verbatim>\<open>getAgentData\<close>
  resolves, whenever the \<^verbatim>\<open>getAccountTotals(marker)\<close> it calls resolves with a
  snapshot, in the state that call leaves; its result is an account of that snapshot
  whose \<open>model_id\<close> is the agent identifier (with its \<open>positions\<close> map), and it is
  \<^verbatim>\<open>null\<close> exactly when the snapshot has no account with that \<open>model_id\<close>.
\<close>

theorem getAgentData_selects_account:
  assumes "this_getAccountTotals marker this = (Inr response, this')"
  shows "\<exists>result.
           CustomDataProviderExample_getAgentData this_getAccountTotals agentId marker this
             = (Inr result, this') \<and>
           (result = None \<longleftrightarrow>
              (\<forall>account \<in> set (accountTotals response). model_id account \<noteq> agentId)) \<and>
           (\<forall>account. result = Some account \<longrightarrow>
              account \<in> set (accountTotals response) \<and> model_id account = agentId)"
proof -
  let ?result = "find (\<lambda>account. model_id account = agentId) (accountTotals response)"
  have call: "CustomDataProviderExample_getAgentData this_getAccountTotals agentId marker this
                = (Inr ?result, this')"
    using assms by (simp add: CustomDataProviderExample_getAgentData_def)
  have none: "?result = None \<longleftrightarrow>
                (\<forall>account \<in> set (accountTotals response). model_id account \<noteq> agentId)"
    by (rule find_None_model_id)
  have some: "\<forall>account. ?result = Some account \<longrightarrow>
                account \<in> set (accountTotals response) \<and> model_id account = agentId"
    using find_Some_member [of "\<lambda>account. model_id account = agentId"] by blast
  show ?thesis
    by (intro exI [of _ ?result] conjI call none some)
qed


lemma test_provider_getAccountTotals:
  "TestCustomDataProvider_getAccountTotals marker (test_provider accts)
     = (Inr \<lparr>accountTotals = accts\<rparr>, test_provider accts)"
  by (simp add: TestCustomDataProvider_getAccountTotals_def test_provider_def
        setMockAccountTotals_def)

theorem getAgentData_selects_account_witness:
  "CustomDataProviderExample_getAgentData TestCustomDataProvider_getAccountTotals
     ''target-agent-id'' (Some 12345)
     (test_provider [target_account 1700000000000, other_account 1700000000000])
   = (Inr (Some (target_account 1700000000000)) :: unit + _,
      test_provider [target_account 1700000000000, other_account 1700000000000]) \<and>
   positions (target_account 1700000000000) ''BTC'' = Some btc_position"
proof -
  let ?accts = "[target_account 1700000000000, other_account 1700000000000]"
  obtain result where
    call: "CustomDataProviderExample_getAgentData TestCustomDataProvider_getAccountTotals
             ''target-agent-id'' (Some 12345) (test_provider ?accts)
           = (Inr result :: unit + _, test_provider ?accts)" and
    none: "result = None \<longleftrightarrow>
             (\<forall>account \<in> set (accountTotals \<lparr>accountTotals = ?accts\<rparr>).
                model_id account \<noteq> ''target-agent-id'')" and
    some: "\<forall>account. result = Some account \<longrightarrow>
             account \<in> set (accountTotals \<lparr>accountTotals = ?accts\<rparr>) \<and>
             model_id account = ''target-agent-id''"
    using getAgentData_selects_account
            [of TestCustomDataProvider_getAccountTotals "Some 12345" "test_provider ?accts"
                "\<lparr>accountTotals = ?accts\<rparr>" "test_provider ?accts" "''target-agent-id''"]
          test_provider_getAccountTotals [of "Some 12345" ?accts]
    by blast
  from none have "result \<noteq> None"
    by (simp add: target_account_def)
  then obtain account where r: "result = Some account" by blast
  with some have "account \<in> set ?accts" and "model_id account = ''target-agent-id''"
    by simp_all
  then have "account = target_account 1700000000000"
    by (auto simp: other_account_def)
  with r call show ?thesis
    by (simp add: target_account_def)
qed

text \<open>
  The other outcome: when the \<^verbatim>\<open>getAccountTotals\<close> call rejects, the awaiting
  method rejects with the same error and does nothing more.
\<close>

lemma getAgentData_rejects:
  "this_getAccountTotals marker this = (Inl err, this') \<Longrightarrow>
     CustomDataProviderExample_getAgentData this_getAccountTotals agentId marker this
       = (Inl err, this')"
  by (simp add: CustomDataProviderExample_getAgentData_def)

lemma getAvailableAgents_rejects:
  "this_getAccountTotals None this = (Inl err, this') \<Longrightarrow>
     CustomDataProviderExample_getAvailableAgents this_getAccountTotals this = (Inl err, this')"
  by (simp add: CustomDataProviderExample_getAvailableAgents_def)

section \<open>The adapter\<close>

text \<open>
  C2. An \<^verbatim>\<open>ApiClient\<close> constructed with an injected provider holds that provider,
  and each of its five methods, at any arguments and in any state, gives the result
  (value or error) and leaves the state that the provider's method of the same name gives
  and leaves at the same arguments.
\<close>

theorem ApiClient_delegates:
  fixes provider :: "('e, 'p, 's) IDataProvider"
  shows "(let client = ApiClient_new config Nof1DataProvider_new baseUrl timeout (Some provider)
          in ApiClient_getAccountTotals client marker s = getAccountTotals provider marker s \<and>
             ApiClient_getAvailableAgents client s = getAvailableAgents provider s \<and>
             ApiClient_getAgentData client agentId marker s
               = getAgentData provider agentId marker s \<and>
             ApiClient_clearCache client s = clearCache provider s \<and>
             ApiClient_getCacheStats client s = getCacheStats provider s \<and>
             dataProvider client = provider)"
  by (simp add: ApiClient_new_def ApiClient_getAccountTotals_def
        ApiClient_getAvailableAgents_def ApiClient_getAgentData_def ApiClient_clearCache_def
        ApiClient_getCacheStats_def)

section \<open>Listing the agents\<close>

lemma set_Set_add: "set (Set_add x xs) = insert x (set xs)"
  by (auto simp: Set_add_def)

lemma distinct_Set_add: "distinct xs \<Longrightarrow> distinct (Set_add x xs)"
  by (simp add: Set_add_def)

lemma set_collect_agentIds:
  "set (collect_agentIds accts agentIds) = set agentIds \<union> model_id ` set accts"
  by (induction accts arbitrary: agentIds) (auto simp: set_Set_add)

lemma distinct_collect_agentIds:
  "distinct agentIds \<Longrightarrow> distinct (collect_agentIds accts agentIds)"
  by (induction accts arbitrary: agentIds) (simp_all add: distinct_Set_add)

text \<open>
  C3. When the \<^verbatim>\<open>getAccountTotals()\<close> it calls resolves with a list of accounts,
  \<^verbatim>\<open>getAvailableAgents\<close> resolves with a list whose elements are exactly the
  \<open>model_id\<close> values of those accounts, each once.
\<close>

theorem getAvailableAgents_distinct_model_ids:
  assumes "this_getAccountTotals None this = (Inr response, this')"
  shows "\<exists>agents.
           CustomDataProviderExample_getAvailableAgents this_getAccountTotals this
             = (Inr agents, this') \<and>
           set agents = model_id ` set (accountTotals response) \<and>
           distinct agents"
proof -
  let ?agents = "collect_agentIds (accountTotals response) []"
  have call: "CustomDataProviderExample_getAvailableAgents this_getAccountTotals this
                = (Inr ?agents, this')"
    using assms by (simp add: CustomDataProviderExample_getAvailableAgents_def)
  have members: "set ?agents = model_id ` set (accountTotals response)"
    by (simp add: set_collect_agentIds)
  have once: "distinct ?agents"
    by (simp add: distinct_collect_agentIds)
  show ?thesis
    by (intro exI [of _ ?agents] conjI call members once)
qed

theorem getAvailableAgents_distinct_model_ids_witness:
  "CustomDataProviderExample_getAvailableAgents TestCustomDataProvider_getAccountTotals
     (test_provider (mockAccounts 1700000000000))
   = (Inr [''agent-model-1'', ''agent-model-2''] :: unit + _,
      test_provider (mockAccounts 1700000000000))"
proof -
  let ?this = "test_provider (mockAccounts 1700000000000)"
  obtain agents where
    call: "CustomDataProviderExample_getAvailableAgents TestCustomDataProvider_getAccountTotals
             ?this = (Inr agents :: unit + _, ?this)" and
    members: "set agents
                = model_id ` set (accountTotals \<lparr>accountTotals = mockAccounts 1700000000000\<rparr>)"
    using getAvailableAgents_distinct_model_ids
            [of TestCustomDataProvider_getAccountTotals ?this
                "\<lparr>accountTotals = mockAccounts 1700000000000\<rparr>" ?this]
          test_provider_getAccountTotals [of None "mockAccounts 1700000000000"]
    by blast
  have "agents = collect_agentIds (mockAccounts 1700000000000) []"
    using call
    by (simp add: CustomDataProviderExample_getAvailableAgents_def
          test_provider_getAccountTotals)
  then have "agents = [''agent-model-1'', ''agent-model-2'']"
    by (simp add: mockAccounts_def mock_account_def Set_add_def)
  with call show ?thesis by simp
qed

section \<open>The methods of the example class as it stands\<close>

lemma getAccountTotals_base:
  "CustomDataProviderExample_getAccountTotals marker this = (Inr \<lparr>accountTotals = []\<rparr>, this)"
  by (simp add: CustomDataProviderExample_getAccountTotals_def)

lemma getAgentData_base:
  "CustomDataProviderExample_getAgentData CustomDataProviderExample_getAccountTotals
     agentId marker this = (Inr None, this)"
  by (simp add: CustomDataProviderExample_getAgentData_def getAccountTotals_base)

lemma getAvailableAgents_base:
  "CustomDataProviderExample_getAvailableAgents CustomDataProviderExample_getAccountTotals this
     = (Inr [], this)"
  by (simp add: CustomDataProviderExample_getAvailableAgents_def getAccountTotals_base)

section \<open>Calling twice\<close>

text \<open>
  C4. For every state of a \<^verbatim>\<open>CustomDataProviderExample\<close>, every marker (absent or any
  integer) and every agent identifier: of two consecutive calls of
  \<^verbatim>\<open>getAccountTotals\<close>, and of two consecutive calls of \<^verbatim>\<open>getAgentData\<close>, the
  second returns what the first returns, and the state, with its cache, is after each
  call what it was before the first.
\<close>

theorem reads_idempotent:
  fixes this :: "('d, 'z) CustomDataProviderExample_scheme"
  shows
    "(case CustomDataProviderExample_getAccountTotals marker this of
        (first :: 'e + 'p DataProviderResponse, this1) \<Rightarrow>
          (case CustomDataProviderExample_getAccountTotals marker this1 of
             (second, this2) \<Rightarrow>
               second = first \<and> this1 = this \<and> this2 = this \<and> cache this2 = cache this)) \<and>
     (case CustomDataProviderExample_getAgentData CustomDataProviderExample_getAccountTotals
             agentId marker this of
        (first :: 'e + 'p AgentAccount option, this1) \<Rightarrow>
          (case CustomDataProviderExample_getAgentData
                  CustomDataProviderExample_getAccountTotals agentId marker this1 of
             (second, this2) \<Rightarrow>
               second = first \<and> this1 = this \<and> this2 = this \<and> cache this2 = cache this))"
  by (simp add: getAccountTotals_base getAgentData_base)

section \<open>The cache operations\<close>

lemma Map_entries_clear: "Map_entries (Map_clear m) = []"
  by (simp add: Map_entries_def Map_clear_def DAList.empty.rep_eq)

lemma Map_size_clear: "Map_size (Map_clear m) = 0"
  by (simp add: Map_size_def Map_clear_def DAList.empty.rep_eq)

lemma Map_clear_idem: "Map_clear (Map_clear m) = Map_clear m"
  by (simp add: Map_clear_def)

text \<open>
  C5. Whatever the cache holds, \<^verbatim>\<open>getCacheStats\<close> right after \<^verbatim>\<open>clearCache\<close>
  returns size 0 and no entries, and \<^verbatim>\<open>clearCache\<close> called again leaves the state
  that the first call left.
\<close>

theorem clearCache_empties_cache:
  "fst (CustomDataProviderExample_getCacheStats now
          (snd (CustomDataProviderExample_clearCache this)))
     = Inr \<lparr>size_field = 0, entries = []\<rparr> \<and>
   CustomDataProviderExample_clearCache (snd (CustomDataProviderExample_clearCache this))
     = CustomDataProviderExample_clearCache this"
  by (simp add: CustomDataProviderExample_getCacheStats_def
        CustomDataProviderExample_clearCache_def Map_entries_clear Map_size_clear
        Map_clear_idem)

subsection \<open>Number subtraction\<close>




subsection \<open>The statistics\<close>


lemma Array_map_throws:
  "Nullish \<in> snd ` set kvs \<Longrightarrow> Array_map (stats_entry now) kvs = Inl TypeError"
proof (induction kvs)
  case Nil
  then show ?case by simp
next
  case (Cons kv kvs)
  obtain u v where kv: "kv = (u, v)" by (cases kv)
  show ?case
  proof (cases v)
    case Nullish
    then show ?thesis by (simp add: kv stats_entry_def)
  next
    case (Entry entry)
    with Cons kv have rest: "Array_map (stats_entry now) kvs = Inl TypeError" by auto
    have "\<exists>e. stats_entry now kv = Inr e"
      by (simp add: kv Entry stats_entry_def)
    then obtain e where "stats_entry now kv = Inr e" ..
    with rest show ?thesis by simp
  qed
qed



lemma getCacheStats_throws:
  "Nullish \<in> snd ` set (Map_entries (cache this)) \<Longrightarrow>
     CustomDataProviderExample_getCacheStats now this = (Inl TypeError, this)"
  by (simp add: CustomDataProviderExample_getCacheStats_def Array_map_throws)








section \<open>The marker\<close>

text \<open>
  C6. \<^verbatim>\<open>getAgentData\<close> depends on the \<^verbatim>\<open>getAccountTotals\<close> it dispatches to only
  through that method's outcome at the marker it was given, and \<^verbatim>\<open>getAvailableAgents\<close>
  only through its outcome at no marker. Over a signal source that records the marker of
  every call and answers each marker with its own snapshot, \<^verbatim>\<open>getAgentData\<close> makes
  one call, with the marker it was given, and searches the snapshot of that marker;
  \<^verbatim>\<open>getAvailableAgents\<close> makes one call, without a marker, and lists the agents of
  that snapshot.
\<close>

theorem marker_forwarded:
  "(gat marker this = gat' marker this \<longrightarrow>
      CustomDataProviderExample_getAgentData gat agentId marker this
        = CustomDataProviderExample_getAgentData gat' agentId marker this) \<and>
   (gat None this = gat' None this \<longrightarrow>
      CustomDataProviderExample_getAvailableAgents gat this
        = CustomDataProviderExample_getAvailableAgents gat' this) \<and>
   CustomDataProviderExample_getAgentData (\<lambda>m calls. (Inr (snapshot m), calls @ [m]))
       agentId marker calls
     = (Inr (find (\<lambda>account. model_id account = agentId) (accountTotals (snapshot marker))),
        calls @ [marker]) \<and>
   CustomDataProviderExample_getAvailableAgents (\<lambda>m calls. (Inr (snapshot m), calls @ [m]))
       calls
     = (Inr (collect_agentIds (accountTotals (snapshot None)) []), calls @ [None])"
  by (simp add: CustomDataProviderExample_getAgentData_def
        CustomDataProviderExample_getAvailableAgents_def)

text \<open>
  Two methods that agree at marker 12345 (at no marker) and differ elsewhere give the same
  \<^verbatim>\<open>getAgentData\<close> at 12345 (the same \<^verbatim>\<open>getAvailableAgents\<close>); a recording source
  with the accounts of the test fixture behind one marker only is asked for that marker.
\<close>

theorem marker_forwarded_witness:
  "(\<lambda>m. if m = Some 12345 then TestCustomDataProvider_getAccountTotals m
         else CustomDataProviderExample_getAccountTotals m) None
     (test_provider (mockAccounts 1700000000000))
   \<noteq> (TestCustomDataProvider_getAccountTotals None (test_provider (mockAccounts 1700000000000))
        :: (unit + _) \<times> _) \<and>
   CustomDataProviderExample_getAgentData
     (\<lambda>m. if m = Some 12345 then TestCustomDataProvider_getAccountTotals m
          else CustomDataProviderExample_getAccountTotals m)
     ''agent-model-2'' (Some 12345) (test_provider (mockAccounts 1700000000000))
   = (CustomDataProviderExample_getAgentData TestCustomDataProvider_getAccountTotals
        ''agent-model-2'' (Some 12345) (test_provider (mockAccounts 1700000000000))
        :: (unit + _) \<times> _) \<and>
   CustomDataProviderExample_getAvailableAgents
     (\<lambda>m. if m = None then TestCustomDataProvider_getAccountTotals m
          else CustomDataProviderExample_getAccountTotals m)
     (test_provider (mockAccounts 1700000000000))
   = (CustomDataProviderExample_getAvailableAgents TestCustomDataProvider_getAccountTotals
        (test_provider (mockAccounts 1700000000000)) :: (unit + _) \<times> _) \<and>
   CustomDataProviderExample_getAgentData
     (\<lambda>m calls. (Inr \<lparr>accountTotals = (if m = Some 12345 then mockAccounts 1700000000000
                                        else [])\<rparr>, calls @ [m]))
     ''agent-model-2'' (Some 12345) [None]
   = (Inr (Some (mock_account ''agent-3'' ''agent-model-2'' 1700000000000)) :: unit + _,
      [None, Some 12345]) \<and>
   CustomDataProviderExample_getAvailableAgents
     (\<lambda>m calls. (Inr \<lparr>accountTotals = (if m = None then mockAccounts 1700000000000
                                        else [])\<rparr>, calls @ [m]))
     [Some 12345]
   = (Inr [''agent-model-1'', ''agent-model-2''] :: unit + _, [Some 12345, None])"
proof -
  let ?tp = "test_provider (mockAccounts 1700000000000)"
  let ?test = "TestCustomDataProvider_getAccountTotals :: marker option \<Rightarrow> (unit, Position DataProviderResponse, (unit, Position) TestCustomDataProvider) async"
  let ?base = "CustomDataProviderExample_getAccountTotals :: marker option \<Rightarrow> (unit, Position DataProviderResponse, (unit, Position) TestCustomDataProvider) async"
  let ?at_marker = "\<lambda>m. if m = Some 12345 then ?test m else ?base m"
  let ?at_none = "\<lambda>m. if m = None then ?test m else ?base m"
  let ?by_marker = "\<lambda>m :: marker option.
      \<lparr>accountTotals = (if m = Some 12345 then mockAccounts 1700000000000 else [])\<rparr>"
  let ?by_none = "\<lambda>m :: marker option.
      \<lparr>accountTotals = (if m = None then mockAccounts 1700000000000 else [])\<rparr>"
  have differ: "?at_marker None ?tp \<noteq> ?test None ?tp"
    by (simp add: getAccountTotals_base test_provider_getAccountTotals mockAccounts_def)
  have same_marker: "?at_marker (Some 12345) ?tp = ?test (Some 12345) ?tp"
    by simp
  have same_none: "?at_none None ?tp = ?test None ?tp"
    by simp
  note at_marker = marker_forwarded
      [of ?at_marker "Some 12345" ?tp ?test "''agent-model-2''" ?by_marker "[None]"]
  note at_none = marker_forwarded
      [of ?at_none "Some 12345" ?tp ?test "''agent-model-2''" ?by_none "[Some 12345]"]
  have agent: "CustomDataProviderExample_getAgentData ?at_marker ''agent-model-2''
                 (Some 12345) ?tp
               = CustomDataProviderExample_getAgentData ?test ''agent-model-2''
                   (Some 12345) ?tp"
    by (rule mp [OF at_marker [THEN conjunct1] same_marker])
  have agents: "CustomDataProviderExample_getAvailableAgents ?at_none ?tp
                = CustomDataProviderExample_getAvailableAgents ?test ?tp"
    by (rule mp [OF at_none [THEN conjunct2, THEN conjunct1] same_none])
  have found: "find (\<lambda>account. model_id account = ''agent-model-2'')
                 (mockAccounts 1700000000000)
               = Some (mock_account ''agent-3'' ''agent-model-2'' 1700000000000)"
    by (simp add: mockAccounts_def mock_account_def)
  have listed: "collect_agentIds (mockAccounts 1700000000000) []
                = [''agent-model-1'', ''agent-model-2'']"
    by (simp add: mockAccounts_def mock_account_def Set_add_def)
  from at_marker [THEN conjunct2, THEN conjunct2, THEN conjunct1]
  have recorded_agent: "CustomDataProviderExample_getAgentData
       (\<lambda>m calls. (Inr (?by_marker m), calls @ [m])) ''agent-model-2'' (Some 12345) [None]
     = (Inr (Some (mock_account ''agent-3'' ''agent-model-2'' 1700000000000)) :: unit + _,
        [None, Some 12345])"
    by (simp add: found)
  from at_none [THEN conjunct2, THEN conjunct2, THEN conjunct2]
  have recorded_agents: "CustomDataProviderExample_getAvailableAgents
       (\<lambda>m calls. (Inr (?by_none m), calls @ [m])) [Some 12345]
     = (Inr [''agent-model-1'', ''agent-model-2''] :: unit + _, [Some 12345, None])"
    by (simp add: listed)
  show ?thesis
    by (intro conjI differ agent agents recorded_agent recorded_agents)
qed

section \<open>Which operations write the cache\<close>

text \<open>
  C9. In every state of a \<^verbatim>\<open>CustomDataProviderExample\<close> and at all arguments,
  \<^verbatim>\<open>getAccountTotals\<close>, \<^verbatim>\<open>getAvailableAgents\<close>, \<^verbatim>\<open>getAgentData\<close> and
  \<^verbatim>\<open>getCacheStats\<close> leave the cache as it was; \<^verbatim>\<open>clearCache\<close> leaves it empty.
\<close>

theorem only_clearCache_writes_cache:
  fixes this :: "('d, 'z) CustomDataProviderExample_scheme"
  shows
    "cache (snd (CustomDataProviderExample_getAccountTotals marker this
                   :: ('e + 'p DataProviderResponse) \<times> _)) = cache this \<and>
     cache (snd (CustomDataProviderExample_getAvailableAgents
                   CustomDataProviderExample_getAccountTotals this
                   :: ('e + string list) \<times> _)) = cache this \<and>
     cache (snd (CustomDataProviderExample_getAgentData
                   CustomDataProviderExample_getAccountTotals agentId marker this
                   :: ('e + 'p AgentAccount option) \<times> _)) = cache this \<and>
     cache (snd (CustomDataProviderExample_getCacheStats now this)) = cache this \<and>
     cache (snd (CustomDataProviderExample_clearCache this)) = DAList.empty"
  by (simp add: getAccountTotals_base getAvailableAgents_base getAgentData_base
        CustomDataProviderExample_getCacheStats_def CustomDataProviderExample_clearCache_def
        Map_clear_def split: sum.split)

section \<open>Duplicate agent identifiers\<close>

lemma find_first_match:
  "P a \<Longrightarrow> \<forall>b \<in> set before. \<not> P b \<Longrightarrow> find P (before @ a # after) = Some a"
  by (induction before) auto

text \<open>
  C10. When the snapshot lists an account with the requested \<open>model_id\<close> and no account
  before it in the list has that \<open>model_id\<close>, \<^verbatim>\<open>getAgentData\<close> returns that account,
  whatever follows it in the list (accounts with the same \<open>model_id\<close> included).
\<close>

theorem getAgentData_first_of_duplicates:
  assumes "this_getAccountTotals marker this = (Inr response, this')"
    and "accountTotals response = before @ account # after"
    and "model_id account = agentId"
    and "\<forall>earlier \<in> set before. model_id earlier \<noteq> agentId"
  shows "CustomDataProviderExample_getAgentData this_getAccountTotals agentId marker this
           = (Inr (Some account), this')"
  using assms
  by (simp add: CustomDataProviderExample_getAgentData_def find_first_match)

theorem getAgentData_first_of_duplicates_witness:
  "CustomDataProviderExample_getAgentData TestCustomDataProvider_getAccountTotals
     ''agent-model-1'' None
     (test_provider (mock_account ''agent-3'' ''agent-model-2'' 1700000000000
                       # mockAccounts 1700000000000))
   = (Inr (Some (mock_account ''agent-1'' ''agent-model-1'' 1700000000000)) :: unit + _,
      test_provider (mock_account ''agent-3'' ''agent-model-2'' 1700000000000
                       # mockAccounts 1700000000000)) \<and>
   model_id (mockAccounts 1700000000000 ! 1) = ''agent-model-1''"
proof -
  let ?t = "1700000000000 :: int"
  let ?a3 = "mock_account ''agent-3'' ''agent-model-2'' ?t"
  let ?a2 = "mock_account ''agent-2'' ''agent-model-1'' ?t"
  let ?a1 = "mock_account ''agent-1'' ''agent-model-1'' ?t"
  have split: "accountTotals \<lparr>accountTotals = ?a3 # mockAccounts ?t\<rparr> = [?a3] @ ?a1 # [?a2, ?a3]"
    by (simp add: mockAccounts_def)
  have m: "model_id ?a1 = ''agent-model-1''"
    by (simp add: mock_account_def)
  have e: "\<forall>earlier \<in> set [?a3]. model_id earlier \<noteq> ''agent-model-1''"
    by (simp add: mock_account_def)
  have dup: "model_id (mockAccounts ?t ! 1) = ''agent-model-1''"
    by (simp add: mockAccounts_def mock_account_def)
  from getAgentData_first_of_duplicates
         [of TestCustomDataProvider_getAccountTotals None
             "test_provider (?a3 # mockAccounts ?t)"
             "\<lparr>accountTotals = ?a3 # mockAccounts ?t\<rparr>"
             "test_provider (?a3 # mockAccounts ?t)" "[?a3]" ?a1 "[?a2, ?a3]" "''agent-model-1''",
          OF test_provider_getAccountTotals split m e] dup
  show ?thesis by simp
qed

section \<open>Snapshots as objects\<close>

lemma unchanged_objects_refl: "unchanged_objects h h"
  by (simp add: unchanged_objects_def)

lemma alloc_array_new:
  assumes "alloc_array elems h = (a, h')"
  shows "\<not> allocated h a" and "allocated h' a" and "arrays h' a = elems"
    and "accounts h' = accounts h" and "unchanged_objects h h'"
  using assms by (auto simp: alloc_array_def allocated_def unchanged_objects_def)

lemma getAccountTotals_ref_base:
  "CustomDataProviderExample_getAccountTotals_ref marker (this, h)
     = (Inr \<lparr>accountTotals_ref = next_free h\<rparr>, (this, snd (alloc_array [] h)))"
  by (simp add: CustomDataProviderExample_getAccountTotals_ref_def alloc_array_def)

lemma getAgentData_ref_store:
  "snd (CustomDataProviderExample_getAgentData_ref this_getAccountTotals agentId marker w)
     = snd (this_getAccountTotals marker w)"
  by (simp add: CustomDataProviderExample_getAgentData_ref_def
        split: prod.split sum.split)

lemma getAvailableAgents_ref_store:
  "snd (CustomDataProviderExample_getAvailableAgents_ref this_getAccountTotals w)
     = snd (this_getAccountTotals None w)"
  by (simp add: CustomDataProviderExample_getAvailableAgents_ref_def
        split: prod.split sum.split)

lemma find_map_option:
  "find P (map f xs) = map_option f (find (\<lambda>x. P (f x)) xs)"
  by (induction xs) simp_all

text \<open>
  The methods over the store compute what the methods over values compute: a reference
  stands for the object it points to.
\<close>

lemma getAccountTotals_ref_denotes:
  "\<exists>r h'. CustomDataProviderExample_getAccountTotals_ref marker (this, h) = (Inr r, (this, h')) \<and>
           CustomDataProviderExample_getAccountTotals marker this
             = (Inr (response_of h' r), this)"
  by (simp add: getAccountTotals_ref_base getAccountTotals_base response_of_def alloc_array_def)

lemma getAgentData_ref_denotes:
  assumes "gat_ref marker (this, h) = (Inr r, (this', h'))"
    and "gat marker this = (Inr (response_of h' r), this')"
  shows "\<exists>res. CustomDataProviderExample_getAgentData_ref gat_ref agentId marker (this, h)
                 = (Inr res, (this', h')) \<and>
               CustomDataProviderExample_getAgentData gat agentId marker this
                 = (Inr (map_option (accounts h') res), this')"
  using assms
  by (simp add: CustomDataProviderExample_getAgentData_ref_def
        CustomDataProviderExample_getAgentData_def response_of_def find_map_option)

lemma getAvailableAgents_ref_denotes:
  assumes "gat_ref None (this, h) = (Inr r, (this', h'))"
    and "gat None this = (Inr (response_of h' r), this')"
  shows "\<exists>res. CustomDataProviderExample_getAvailableAgents_ref gat_ref (this, h)
                 = (Inr res, (this', h')) \<and>
               CustomDataProviderExample_getAvailableAgents gat this = (Inr res, this')"
  using assms
  by (simp add: CustomDataProviderExample_getAvailableAgents_ref_def
        CustomDataProviderExample_getAvailableAgents_def response_of_def)

lemma getAgentData_ref_selects:
  assumes "this_getAccountTotals marker w = (Inr r, (this', h'))"
  shows "\<exists>found.
           CustomDataProviderExample_getAgentData_ref this_getAccountTotals agentId marker w
             = (Inr found, (this', h')) \<and>
           (found = None \<longleftrightarrow>
              (\<forall>a \<in> set (arrays h' (accountTotals_ref r)).
                 model_id (accounts h' a) \<noteq> agentId)) \<and>
           (\<forall>a. found = Some a \<longrightarrow>
              a \<in> set (arrays h' (accountTotals_ref r)) \<and>
              model_id (accounts h' a) = agentId)"
proof -
  let ?P = "\<lambda>account. model_id (accounts h' account) = agentId"
  let ?found = "find ?P (arrays h' (accountTotals_ref r))"
  have call: "CustomDataProviderExample_getAgentData_ref this_getAccountTotals agentId marker w
                = (Inr ?found, (this', h'))"
    using assms by (simp add: CustomDataProviderExample_getAgentData_ref_def)
  have none: "?found = None \<longleftrightarrow>
                (\<forall>a \<in> set (arrays h' (accountTotals_ref r)).
                   model_id (accounts h' a) \<noteq> agentId)"
    by (auto simp: find_None_iff)
  have some: "\<forall>a. ?found = Some a \<longrightarrow>
                a \<in> set (arrays h' (accountTotals_ref r)) \<and>
                model_id (accounts h' a) = agentId"
    using find_Some_member [of ?P] by blast
  show ?thesis
    by (intro exI [of _ ?found] conjI call none some)
qed

text \<open>
  C7. In every store and every state of a \<^verbatim>\<open>CustomDataProviderExample\<close>, a call of
  \<^verbatim>\<open>getAccountTotals\<close> returns an array that was not allocated before the call, is
  allocated after it and is empty, writes no account, and leaves every object allocated
  before as it was; the next call returns another array. \<^verbatim>\<open>getAvailableAgents\<close> and
  \<^verbatim>\<open>getAgentData\<close>, whatever \<^verbatim>\<open>getAccountTotals\<close> they dispatch to and whatever
  accounts its snapshot holds, leave the store exactly as that call leaves it, and the
  account \<^verbatim>\<open>getAgentData\<close> returns is an element of the snapshot's array, found by
  its \<open>model_id\<close> in that store; with the class's own \<^verbatim>\<open>getAccountTotals\<close> they so
  leave every earlier object as it was. \<^verbatim>\<open>clearCache\<close> and \<^verbatim>\<open>getCacheStats\<close>
  leave the whole store as it was.
\<close>

theorem snapshots_fresh_and_never_written:
  fixes this :: "('d, 'z) CustomDataProviderExample_scheme" and h :: "'p store"
    and w :: "'s \<times> 'p store"
    and this_getAccountTotals ::
      "marker option \<Rightarrow> ('e, DataProviderResponse_ref, 's \<times> 'p store) async"
  shows
    "(\<exists>r h1. CustomDataProviderExample_getAccountTotals_ref marker (this, h)
               = (Inr r :: 'e + _, (this, h1)) \<and>
             \<not> allocated h (accountTotals_ref r) \<and> allocated h1 (accountTotals_ref r) \<and>
             arrays h1 (accountTotals_ref r) = [] \<and>
             response_of h1 r = \<lparr>accountTotals = []\<rparr> \<and>
             accounts h1 = accounts h \<and>
             unchanged_objects h h1) \<and>
     (case CustomDataProviderExample_getAccountTotals_ref marker (this, h) of
        (first :: 'e + _, w1) \<Rightarrow>
          (case CustomDataProviderExample_getAccountTotals_ref marker' w1 of
             (second, w2) \<Rightarrow> second \<noteq> first)) \<and>
     snd (CustomDataProviderExample_getAvailableAgents_ref this_getAccountTotals w)
       = snd (this_getAccountTotals None w) \<and>
     snd (CustomDataProviderExample_getAgentData_ref this_getAccountTotals agentId marker w)
       = snd (this_getAccountTotals marker w) \<and>
     (\<forall>r this' h'. this_getAccountTotals marker w = (Inr r, (this', h')) \<longrightarrow>
        (\<exists>found.
           CustomDataProviderExample_getAgentData_ref this_getAccountTotals agentId marker w
             = (Inr found, (this', h')) \<and>
           (found = None \<longleftrightarrow>
              (\<forall>a \<in> set (arrays h' (accountTotals_ref r)).
                 model_id (accounts h' a) \<noteq> agentId)) \<and>
           (\<forall>a. found = Some a \<longrightarrow>
              a \<in> set (arrays h' (accountTotals_ref r)) \<and>
              model_id (accounts h' a) = agentId))) \<and>
     unchanged_objects h
       (snd (snd (CustomDataProviderExample_getAvailableAgents_ref
                    CustomDataProviderExample_getAccountTotals_ref (this, h)
                    :: ('e + _) \<times> _))) \<and>
     unchanged_objects h
       (snd (snd (CustomDataProviderExample_getAgentData_ref
                    CustomDataProviderExample_getAccountTotals_ref agentId marker (this, h)
                    :: ('e + _) \<times> _))) \<and>
     snd (snd (CustomDataProviderExample_clearCache_ref (this, h))) = h \<and>
     unchanged_objects h (snd (snd (CustomDataProviderExample_clearCache_ref (this, h)))) \<and>
     snd (snd (CustomDataProviderExample_getCacheStats_ref now (this, h))) = h \<and>
     unchanged_objects h (snd (snd (CustomDataProviderExample_getCacheStats_ref now (this, h))))"
proof -
  obtain a h1 where al: "alloc_array [] h = (a, h1)"
    by (cases "alloc_array [] h")
  note n1 = alloc_array_new(1) [OF al] and n2 = alloc_array_new(2) [OF al]
    and n4 = alloc_array_new(3) [OF al] and n5 = alloc_array_new(4) [OF al]
    and n3 = alloc_array_new(5) [OF al]
  have call: "CustomDataProviderExample_getAccountTotals_ref m (this, h)
                = (Inr \<lparr>accountTotals_ref = a\<rparr> :: 'e + _, (this, h1))" for m
    using al by (simp add: CustomDataProviderExample_getAccountTotals_ref_def)
  have fresh: "\<exists>r h1. CustomDataProviderExample_getAccountTotals_ref marker (this, h)
                         = (Inr r :: 'e + _, (this, h1)) \<and>
                       \<not> allocated h (accountTotals_ref r) \<and>
                       allocated h1 (accountTotals_ref r) \<and>
                       arrays h1 (accountTotals_ref r) = [] \<and>
                       response_of h1 r = \<lparr>accountTotals = []\<rparr> \<and>
                       accounts h1 = accounts h \<and>
                       unchanged_objects h h1"
  proof (intro exI conjI)
    show "CustomDataProviderExample_getAccountTotals_ref marker (this, h)
            = (Inr \<lparr>accountTotals_ref = a\<rparr> :: 'e + _, (this, h1))"
      by (rule call)
    show "\<not> allocated h (accountTotals_ref \<lparr>accountTotals_ref = a\<rparr>)"
      using n1 by simp
    show "allocated h1 (accountTotals_ref \<lparr>accountTotals_ref = a\<rparr>)"
      using n2 by simp
    show "arrays h1 (accountTotals_ref \<lparr>accountTotals_ref = a\<rparr>) = []"
      using n4 by simp
    show "response_of h1 \<lparr>accountTotals_ref = a\<rparr> = \<lparr>accountTotals = []\<rparr>"
      using n4 by (simp add: response_of_def)
    show "accounts h1 = accounts h"
      by (rule n5)
    show "unchanged_objects h h1"
      by (rule n3)
  qed
  have twice: "(case CustomDataProviderExample_getAccountTotals_ref marker (this, h) of
                  (first :: 'e + _, w1) \<Rightarrow>
                    (case CustomDataProviderExample_getAccountTotals_ref marker' w1 of
                       (second, w2) \<Rightarrow> second \<noteq> first))"
    by (simp add: getAccountTotals_ref_base alloc_array_def)
  have agents_any:
    "snd (CustomDataProviderExample_getAvailableAgents_ref this_getAccountTotals w)
       = snd (this_getAccountTotals None w)"
    by (rule getAvailableAgents_ref_store)
  have agent_any:
    "snd (CustomDataProviderExample_getAgentData_ref this_getAccountTotals agentId marker w)
       = snd (this_getAccountTotals marker w)"
    by (rule getAgentData_ref_store)
  have selects: "\<forall>r this' h'. this_getAccountTotals marker w = (Inr r, (this', h')) \<longrightarrow>
        (\<exists>found.
           CustomDataProviderExample_getAgentData_ref this_getAccountTotals agentId marker w
             = (Inr found, (this', h')) \<and>
           (found = None \<longleftrightarrow>
              (\<forall>a \<in> set (arrays h' (accountTotals_ref r)).
                 model_id (accounts h' a) \<noteq> agentId)) \<and>
           (\<forall>a. found = Some a \<longrightarrow>
              a \<in> set (arrays h' (accountTotals_ref r)) \<and>
              model_id (accounts h' a) = agentId))"
    by (intro allI impI) (rule getAgentData_ref_selects)
  have agents: "unchanged_objects h
       (snd (snd (CustomDataProviderExample_getAvailableAgents_ref
                    CustomDataProviderExample_getAccountTotals_ref (this, h)
                    :: ('e + _) \<times> _)))"
    using n3 by (simp add: getAvailableAgents_ref_store call)
  have agent: "unchanged_objects h
       (snd (snd (CustomDataProviderExample_getAgentData_ref
                    CustomDataProviderExample_getAccountTotals_ref agentId marker (this, h)
                    :: ('e + _) \<times> _)))"
    using n3 by (simp add: getAgentData_ref_store call)
  have clear_eq: "snd (snd (CustomDataProviderExample_clearCache_ref (this, h))) = h"
    by (simp add: CustomDataProviderExample_clearCache_ref_def
          CustomDataProviderExample_clearCache_def)
  have clear: "unchanged_objects h
                 (snd (snd (CustomDataProviderExample_clearCache_ref (this, h))))"
    by (simp add: clear_eq unchanged_objects_refl)
  have stats_eq: "snd (snd (CustomDataProviderExample_getCacheStats_ref now (this, h))) = h"
    by (simp add: CustomDataProviderExample_getCacheStats_ref_def
          CustomDataProviderExample_getCacheStats_def split: sum.split)
  have stats: "unchanged_objects h
                 (snd (snd (CustomDataProviderExample_getCacheStats_ref now (this, h))))"
    by (simp add: stats_eq unchanged_objects_refl)
  show ?thesis
    by (intro conjI fresh twice agents_any agent_any selects agents agent clear_eq clear
          stats_eq stats)
qed

text \<open>
  In the example store, with a \<^verbatim>\<open>getAccountTotals\<close> that answers with the stored
  array (as the test subclass answers with its one array), \<^verbatim>\<open>getAgentData\<close> returns
  the stored account and leaves the store as it is; the class's own
  \<^verbatim>\<open>getAccountTotals\<close> returns another array and leaves the stored array and
  account as they are.
\<close>

theorem snapshots_fresh_and_never_written_witness:
  "CustomDataProviderExample_getAgentData_ref
     (\<lambda>m w. (Inr \<lparr>accountTotals_ref = 1\<rparr>, w)) ''target-agent-id'' (Some 12345)
     (CustomDataProviderExample_new ''https://test-api.com'' (Some ''test-api-key'')
        :: string CustomDataProviderExample, example_store)
   = (Inr (Some 0) :: unit + _,
      (CustomDataProviderExample_new ''https://test-api.com'' (Some ''test-api-key''),
       example_store)) \<and>
   fst (CustomDataProviderExample_getAccountTotals_ref (Some 12345)
          (CustomDataProviderExample_new ''https://test-api.com'' (Some ''test-api-key'')
             :: string CustomDataProviderExample, example_store))
     \<noteq> (Inr \<lparr>accountTotals_ref = 1\<rparr> :: unit + _) \<and>
   arrays (snd (snd (CustomDataProviderExample_getAccountTotals_ref (Some 12345)
          (CustomDataProviderExample_new ''https://test-api.com'' (Some ''test-api-key'')
             :: string CustomDataProviderExample, example_store)
          :: (unit + _) \<times> _))) 1 = [0] \<and>
   accounts (snd (snd (CustomDataProviderExample_getAccountTotals_ref (Some 12345)
          (CustomDataProviderExample_new ''https://test-api.com'' (Some ''test-api-key'')
             :: string CustomDataProviderExample, example_store)
          :: (unit + _) \<times> _))) 0 = target_account 1700000000000"
proof -
  let ?provider = "CustomDataProviderExample_new ''https://test-api.com''
                     (Some ''test-api-key'') :: string CustomDataProviderExample"
  let ?stored = "(\<lambda>m w. (Inr \<lparr>accountTotals_ref = 1\<rparr>, w))
                   :: marker option \<Rightarrow> (unit, DataProviderResponse_ref,
                        string CustomDataProviderExample \<times> Position store) async"
  note all = snapshots_fresh_and_never_written
      [where this = ?provider and h = example_store and marker = "Some 12345"
         and this_getAccountTotals = ?stored and w = "(?provider, example_store)"
         and agentId = "''target-agent-id''"]
  have old_array: "arrays example_store 1 = [0]"
    and old_account: "accounts example_store 0 = target_account 1700000000000"
    and allocated0: "allocated example_store 0" and allocated1: "allocated example_store 1"
    by (simp_all add: example_store_def allocated_def)
  have old_array': "arrays example_store (Suc 0) = [0]"
    using old_array by simp
  have stored: "?stored (Some 12345) (?provider, example_store)
                  = (Inr \<lparr>accountTotals_ref = 1\<rparr>, (?provider, example_store))"
    by simp
  from all [THEN conjunct2, THEN conjunct2, THEN conjunct2, THEN conjunct2, THEN conjunct1]
    stored
  obtain found where
    call: "CustomDataProviderExample_getAgentData_ref ?stored ''target-agent-id''
             (Some 12345) (?provider, example_store)
           = (Inr found, (?provider, example_store))" and
    none: "found = None \<longleftrightarrow>
             (\<forall>a \<in> set (arrays example_store (accountTotals_ref \<lparr>accountTotals_ref = 1\<rparr>)).
                model_id (accounts example_store a) \<noteq> ''target-agent-id'')" and
    some: "\<forall>a. found = Some a \<longrightarrow>
             a \<in> set (arrays example_store (accountTotals_ref \<lparr>accountTotals_ref = 1\<rparr>)) \<and>
             model_id (accounts example_store a) = ''target-agent-id''"
    by blast
  from none have "found \<noteq> None"
    by (simp add: old_array' old_account target_account_def)
  then obtain a where "found = Some a" by blast
  with some have "found = Some 0"
    by (simp add: old_array')
  with call have reader: "CustomDataProviderExample_getAgentData_ref ?stored
      ''target-agent-id'' (Some 12345) (?provider, example_store)
    = (Inr (Some 0), (?provider, example_store))"
    by simp
  from all [THEN conjunct1] obtain r h1 where
    new: "CustomDataProviderExample_getAccountTotals_ref (Some 12345)
            (?provider, example_store) = (Inr r :: unit + _, (?provider, h1))" and
    fresh: "\<not> allocated example_store (accountTotals_ref r)" and
    kept: "unchanged_objects example_store h1"
    by blast
  from fresh allocated1 have "r \<noteq> \<lparr>accountTotals_ref = 1\<rparr>"
    by auto
  with new have other: "fst (CustomDataProviderExample_getAccountTotals_ref (Some 12345)
                               (?provider, example_store))
                        \<noteq> (Inr \<lparr>accountTotals_ref = 1\<rparr> :: unit + _)"
    by simp
  from kept allocated0 allocated1
  have "arrays h1 1 = arrays example_store 1" and "accounts h1 0 = accounts example_store 0"
    by (simp_all add: unchanged_objects_def)
  with new old_array old_account
  have array1: "arrays (snd (snd (CustomDataProviderExample_getAccountTotals_ref (Some 12345)
                  (?provider, example_store) :: (unit + _) \<times> _))) 1 = [0]"
    and account0: "accounts (snd (snd (CustomDataProviderExample_getAccountTotals_ref
                  (Some 12345) (?provider, example_store) :: (unit + _) \<times> _))) 0
                = target_account 1700000000000"
    by simp_all
  show ?thesis
    by (intro conjI reader other array1 account0)
qed

end
